theory Spec2Isabelle
  imports Complex_Main "HOL-Library.Sublist"
begin

section \<open>The options block of the script (lines 26-51)\<close>

text \<open>
  The driver reads its options from module-level names. They are collected in a record
  that every function of the model takes as its first argument; \<open>default_config\<close> holds
  the values written in the script. \<open>avg_rotation\<close> is a Python string or \<open>None\<close>.
\<close>

record config =
  avg_dxy :: real
  avg_dz :: real
  avg_max_gap_m :: real
  avg_max_gap_minutes :: real
  avg_max_group_size :: int
  avg_rotation :: "string option"
  avg_std_drop :: real
  avg_std_interp :: bool
  avg_smooth_kernel :: int
  avg_save_netcdf :: bool
  avg_save_csv :: bool
  avg_plot_xy :: bool
  avg_plot_avg_n_sd :: bool
  avg_plot_mean_vectors :: bool
  avg_plot_secondary_circulation :: bool
  avg_plot_UVW_velocity_array :: bool
  avg_plot_flow_summmary :: bool
  avg_save_plots :: bool
  avg_show_plots :: bool

definition default_config :: config where
  "default_config =
     \<lparr> avg_dxy = 2, avg_dz = 1/4, avg_max_gap_m = 30, avg_max_gap_minutes = 20,
       avg_max_group_size = 6, avg_rotation = Some ''Rozovski'', avg_std_drop = 3,
       avg_std_interp = True, avg_smooth_kernel = 5, avg_save_netcdf = True,
       avg_save_csv = True, avg_plot_xy = True, avg_plot_avg_n_sd = True,
       avg_plot_mean_vectors = True, avg_plot_secondary_circulation = True,
       avg_plot_UVW_velocity_array = True, avg_plot_flow_summmary = True,
       avg_save_plots = True, avg_show_plots = False \<rparr>"

section \<open>Python values, string formatting and path joining\<close>

text \<open>
  The second parameter of \<open>plot_avg_n_sd\<close> is untyped in the source: the docstring
  announces a string, the driver passes an integer. \<open>pyval\<close> holds the scalar values it
  can receive; \<open>py_eq_int v k\<close> is Python's \<open>v == k\<close> for an integer literal \<open>k\<close>
  (\<open>True == 1\<close> and \<open>0.0 == 0\<close> hold, a string or \<open>None\<close> equals no integer).
  \<open>PFloat\<close> carries the number a finite float denotes.
\<close>

datatype pyval = PNone | PBool bool | PInt int | PFloat real | PStr string

fun py_eq_int :: "pyval \<Rightarrow> int \<Rightarrow> bool" where
  "py_eq_int PNone k = False"
| "py_eq_int (PBool b) k = ((if b then 1 else 0) = k)"
| "py_eq_int (PInt i) k = (i = k)"
| "py_eq_int (PFloat r) k = (r = of_int k)"
| "py_eq_int (PStr s) k = False"

text \<open>
  \<open>'%03i' % n\<close> for the group counter: the decimal digits of \<open>n\<close>, padded with zeros on
  the left to at least three characters. The counter starts at 0 and is only ever
  incremented, so it is a natural number. \<open>str_nat\<close> is also what \<open>print\<close> writes for
  the result of \<open>len\<close>.
\<close>

definition digit_char :: "nat \<Rightarrow> char" where
  "digit_char d = ''0123456789'' ! d"

fun str_nat :: "nat \<Rightarrow> string" where
  "str_nat n = (if n < 10 then [digit_char n] else str_nat (n div 10) @ [digit_char (n mod 10)])"

declare str_nat.simps [simp del]

definition fmt_03i :: "nat \<Rightarrow> string" where
  "fmt_03i n = replicate (3 - length (str_nat n)) (CHR ''0'') @ str_nat n"

text \<open>\<open>os.path.join(a, b)\<close> of Python 2.7's \<open>posixpath\<close>.\<close>

definition os_path_join :: "string \<Rightarrow> string \<Rightarrow> string" where
  "os_path_join a b =
     (if b \<noteq> [] \<and> hd b = CHR ''/'' then b
      else if a = [] \<or> last a = CHR ''/'' then a @ b
      else a @ ''/'' @ b)"

section \<open>Collaborators outside the script\<close>

text \<open>
  Everything the driver does is a call to a collaborator that is not part of the script:
  the preprocessor, the recipes (\<open>group_adcp_obs_by_spacetime\<close>, \<open>average_transects\<close>,
  \<open>transect_rotate\<close>, \<open>write_csv_velocity\<close>), the methods of the averaged object
  (\<open>sd_drop\<close>, \<open>kernel_smooth\<close>, \<open>write_nc\<close>), the plotting module and \<open>print\<close>.
  A \<open>call\<close> records one such invocation with the arguments the script passes, in the
  order of the source; \<open>'t\<close> is the type of transects, \<open>'g\<close> of groups and \<open>'f\<close> of the
  averaged object. Array arithmetic on the attributes of the averaged object
  (lines 173-176, 187, 198-201) is folded into the \<open>I_panel\<close> call it feeds.
\<close>

datatype ('t, 'g, 'f) call =
    Preprocessor "string option"
  | Print string
  | Group_adcp_obs_by_spacetime "'t list" real real int
  | Plot_obs_group_xy_lines 'g string
  | Savefig string
  | Average_transects 'g real real bool
  | Transect_rotate 'f string
  | Sd_drop 'f real string bool
  | Kernel_smooth 'f int
  | Write_csv_velocity 'f string bool
  | Write_nc 'f string bool
  | Find_projection_distances 'f
  | I_panel 'f string pyval string string
  | Plot_vertical_panels
  | Plot_ensemble_mean_vectors 'f string
  | Plot_secondary_circulation 'f int int string
  | Plot_UVW_velocity_array 'f string real real real
  | Plot_flow_summmary 'f string real real bool
  | Show
  | Close_all

text \<open>
  A \<open>world\<close> fixes how the collaborators answer: whether a call raises, which averaged
  object a call returns (\<open>average_transects\<close>, \<open>transect_rotate\<close>) or leaves behind in
  its receiver (\<open>sd_drop\<close> and \<open>kernel_smooth\<close> mutate in place), and what the
  preprocessor and the grouping return. An answer depends on the call and its arguments
  only. Writers and plotters are taken not to mutate the object they are handed.
\<close>

record ('t, 'g, 'f) world =
  raises :: "('t, 'g, 'f) call \<Rightarrow> bool"
  yields :: "('t, 'g, 'f) call \<Rightarrow> 'f"
  preprocessed :: "string option \<Rightarrow> 't list \<times> string"
  grouped :: "'t list \<Rightarrow> real \<Rightarrow> real \<Rightarrow> int \<Rightarrow> 'g list"

datatype ('t, 'g, 'f) failure = Raised "('t, 'g, 'f) call" | ZeroDivisionError

text \<open>
  A piece of the script evaluates to its outcome (\<open>Inl\<close> the exception that left it,
  \<open>Inr\<close> its value) together with the calls it made, in order. The script has no
  \<open>try\<close>: an exception ends whatever surrounds it.
\<close>

type_synonym ('t, 'g, 'f, 'a) prog = "(('t, 'g, 'f) failure + 'a) \<times> ('t, 'g, 'f) call list"

definition outcome :: "('t, 'g, 'f, 'a) prog \<Rightarrow> ('t, 'g, 'f) failure + 'a" where
  "outcome p = fst p"

definition calls :: "('t, 'g, 'f, 'a) prog \<Rightarrow> ('t, 'g, 'f) call list" where
  "calls p = snd p"

definition returnE :: "'a \<Rightarrow> ('t, 'g, 'f, 'a) prog" where
  "returnE x = (Inr x, [])"

definition raiseE :: "('t, 'g, 'f) failure \<Rightarrow> ('t, 'g, 'f, 'a) prog" where
  "raiseE e = (Inl e, [])"

definition bindE :: "('t, 'g, 'f, 'a) prog \<Rightarrow> ('a \<Rightarrow> ('t, 'g, 'f, 'b) prog) \<Rightarrow> ('t, 'g, 'f, 'b) prog" where
  "bindE m k =
     (case fst m of
        Inl e \<Rightarrow> (Inl e, snd m)
      | Inr x \<Rightarrow> (fst (k x), snd m @ snd (k x)))"

definition thenE :: "('t, 'g, 'f, 'a) prog \<Rightarrow> ('t, 'g, 'f, 'b) prog \<Rightarrow> ('t, 'g, 'f, 'b) prog" where
  "thenE m k = bindE m (\<lambda>_. k)"

definition whenE :: "bool \<Rightarrow> ('t, 'g, 'f, unit) prog \<Rightarrow> ('t, 'g, 'f, unit) prog" where
  "whenE b m = (if b then m else returnE ())"

definition call :: "('t, 'g, 'f) world \<Rightarrow> ('t, 'g, 'f) call \<Rightarrow> ('t, 'g, 'f, unit) prog" where
  "call w c = (if raises w c then Inl (Raised c) else Inr (), [c])"

definition call_field :: "('t, 'g, 'f) world \<Rightarrow> ('t, 'g, 'f) call \<Rightarrow> ('t, 'g, 'f, 'f) prog" where
  "call_field w c = (if raises w c then Inl (Raised c) else Inr (yields w c), [c])"

fun for_each :: "'x list \<Rightarrow> ('x \<Rightarrow> ('t, 'g, 'f, unit) prog) \<Rightarrow> ('t, 'g, 'f, unit) prog" where
  "for_each [] body = returnE ()"
| "for_each (x # xs) body = thenE (body x) (for_each xs body)"

section \<open>\<open>plot_avg_n_sd\<close> (lines 150-213)\<close>

text \<open>The \<open>if\<close>/\<open>elif\<close>/\<open>else\<close> of lines 164-169.\<close>

definition v_str :: "pyval \<Rightarrow> string" where
  "v_str uvw = (if py_eq_int uvw 0 then ''U'' else if py_eq_int uvw 1 then ''V'' else ''W'')"

text \<open>
  Line 171 divides by \<open>resolution\<close>; the three panels are built from the component
  \<open>uvw\<close> of the attributes \<open>velocity\<close>, \<open>velocity_n\<close> and \<open>velocity_sd\<close>, each with its
  title and units, and stacked by \<open>plot_vertical_panels\<close>.
\<close>

definition plot_avg_n_sd ::
  "('t, 'g, 'f) world \<Rightarrow> 'f \<Rightarrow> pyval \<Rightarrow> real \<Rightarrow> ('t, 'g, 'f, unit) prog" where
  "plot_avg_n_sd w avg uvw resolution =
     (if resolution = 0 then raiseE ZeroDivisionError
      else
        thenE (call w (Find_projection_distances avg))
       (thenE (call w (I_panel avg ''velocity'' uvw (v_str uvw @ '' Averaged Velocity [m/s]'') ''m/s''))
       (thenE (call w (I_panel avg ''velocity_n'' uvw ''n Samples'' ''number''))
       (thenE (call w (I_panel avg ''velocity_sd'' uvw ''Standard Deviation [m/s]'' ''m/s''))
              (call w Plot_vertical_panels)))))"

section \<open>\<open>DWR_transect_average\<close> (lines 64-147)\<close>

text \<open>Lines 87-90: the plot of the group's source observations.\<close>

definition plot_xy_step ::
  "config \<Rightarrow> ('t, 'g, 'f) world \<Rightarrow> string \<Rightarrow> nat \<Rightarrow> 'g \<Rightarrow> ('t, 'g, 'f, unit) prog" where
  "plot_xy_step cfg w outpath grp_num grp =
     whenE (avg_plot_xy cfg)
       (thenE (call w (Plot_obs_group_xy_lines grp (''Group'' @ fmt_03i grp_num @ '' Source Observations'')))
              (whenE (avg_save_plots cfg)
                 (call w (Savefig (os_path_join outpath (''group'' @ fmt_03i grp_num @ ''_xy_lines.png''))))))"

text \<open>Line 92.\<close>

definition average_step ::
  "config \<Rightarrow> ('t, 'g, 'f) world \<Rightarrow> 'g \<Rightarrow> ('t, 'g, 'f, 'f) prog" where
  "average_step cfg w grp = call_field w (Average_transects grp (avg_dxy cfg) (avg_dz cfg) True)"

text \<open>Lines 93-94.\<close>

definition rotate_step ::
  "config \<Rightarrow> ('t, 'g, 'f) world \<Rightarrow> 'f \<Rightarrow> ('t, 'g, 'f, 'f) prog" where
  "rotate_step cfg w avg =
     (case avg_rotation cfg of
        None \<Rightarrow> returnE avg
      | Some mode \<Rightarrow> call_field w (Transect_rotate avg mode))"

text \<open>Lines 95-101. Both calls are written with the literal \<open>sd=3.0\<close>.\<close>

definition sd_drop_step ::
  "config \<Rightarrow> ('t, 'g, 'f) world \<Rightarrow> 'f \<Rightarrow> ('t, 'g, 'f, 'f) prog" where
  "sd_drop_step cfg w avg =
     (if avg_std_drop cfg > 0 then
        bindE (call_field w (Sd_drop avg 3 ''elevation'' (avg_std_interp cfg)))
          (\<lambda>avg. call_field w (Sd_drop avg 3 ''ensemble'' (avg_std_interp cfg)))
      else returnE avg)"

text \<open>Lines 102-103. The call is written with the literal \<open>kernel_size = 3\<close>.\<close>

definition smooth_step ::
  "config \<Rightarrow> ('t, 'g, 'f) world \<Rightarrow> 'f \<Rightarrow> ('t, 'g, 'f, 'f) prog" where
  "smooth_step cfg w avg =
     (if avg_smooth_kernel cfg > 2 then call_field w (Kernel_smooth avg 3) else returnE avg)"

text \<open>Lines 105-109.\<close>

definition save_step ::
  "config \<Rightarrow> ('t, 'g, 'f) world \<Rightarrow> string \<Rightarrow> nat \<Rightarrow> 'f \<Rightarrow> ('t, 'g, 'f, unit) prog" where
  "save_step cfg w outpath grp_num avg =
     thenE
       (whenE (avg_save_csv cfg)
          (call w (Write_csv_velocity avg (os_path_join outpath (''group'' @ fmt_03i grp_num @ ''_velocity.csv'')) True)))
       (whenE (avg_save_netcdf cfg)
          (call w (Write_nc avg (os_path_join outpath (''group'' @ fmt_03i grp_num @ ''.nc'')) True)))"

text \<open>Lines 111-116: \<open>for i in range(3)\<close>, with \<open>uvw[i]\<close> read from \<open>'UVW'\<close>.\<close>

definition avg_n_sd_step ::
  "config \<Rightarrow> ('t, 'g, 'f) world \<Rightarrow> string \<Rightarrow> nat \<Rightarrow> 'f \<Rightarrow> ('t, 'g, 'f, unit) prog" where
  "avg_n_sd_step cfg w outpath grp_num avg =
     whenE (avg_plot_avg_n_sd cfg)
       (for_each [0, 1, 2]
          (\<lambda>i. thenE (plot_avg_n_sd w avg (PInt (int i)) 0.05)
                 (whenE (avg_save_plots cfg)
                    (call w (Savefig (os_path_join outpath
                       (''group'' @ fmt_03i grp_num @ ''_'' @ [''UVW'' ! i] @ ''_avg_n_sd.png'')))))))"

text \<open>Lines 118-121.\<close>

definition mean_vectors_step ::
  "config \<Rightarrow> ('t, 'g, 'f) world \<Rightarrow> string \<Rightarrow> nat \<Rightarrow> 'f \<Rightarrow> ('t, 'g, 'f, unit) prog" where
  "mean_vectors_step cfg w outpath grp_num avg =
     whenE (avg_plot_mean_vectors cfg)
       (thenE (call w (Plot_ensemble_mean_vectors avg (''Group'' @ fmt_03i grp_num @ '' Mean Velocity [m/s]'')))
              (whenE (avg_save_plots cfg)
                 (call w (Savefig (os_path_join outpath (''group'' @ fmt_03i grp_num @ ''_mean_velocity.png''))))))"

text \<open>Lines 123-127.\<close>

definition secondary_circulation_step ::
  "config \<Rightarrow> ('t, 'g, 'f) world \<Rightarrow> string \<Rightarrow> nat \<Rightarrow> 'f \<Rightarrow> ('t, 'g, 'f, unit) prog" where
  "secondary_circulation_step cfg w outpath grp_num avg =
     whenE (avg_plot_secondary_circulation cfg)
       (thenE (call w (Plot_secondary_circulation avg 30 30
                 (''Group'' @ fmt_03i grp_num @ '' Streamwise Velocity [m/s] and Cross-stream Vectors'')))
              (whenE (avg_save_plots cfg)
                 (call w (Savefig (os_path_join outpath (''group'' @ fmt_03i grp_num @ ''_secondary_circulation.png''))))))"

text \<open>Lines 129-134.\<close>

definition UVW_velocity_array_step ::
  "config \<Rightarrow> ('t, 'g, 'f) world \<Rightarrow> string \<Rightarrow> nat \<Rightarrow> 'f \<Rightarrow> ('t, 'g, 'f, unit) prog" where
  "UVW_velocity_array_step cfg w outpath grp_num avg =
     whenE (avg_plot_UVW_velocity_array cfg)
       (thenE (call w (Plot_UVW_velocity_array avg (''Group'' @ fmt_03i grp_num @ '' Velocity [m/s]'') 0.1 0.1 0.05))
              (whenE (avg_save_plots cfg)
                 (call w (Savefig (os_path_join outpath (''group'' @ fmt_03i grp_num @ ''_UVW_velocity.png''))))))"

text \<open>Lines 136-140.\<close>

definition flow_summmary_step ::
  "config \<Rightarrow> ('t, 'g, 'f) world \<Rightarrow> string \<Rightarrow> nat \<Rightarrow> 'f \<Rightarrow> ('t, 'g, 'f, unit) prog" where
  "flow_summmary_step cfg w outpath grp_num avg =
     whenE (avg_plot_flow_summmary cfg)
       (thenE (call w (Plot_flow_summmary avg (''Group'' @ fmt_03i grp_num @ '' Streawise Summary'') 0.1 0.1 True))
              (whenE (avg_save_plots cfg)
                 (call w (Savefig (os_path_join outpath (''group'' @ fmt_03i grp_num @ ''_Flow_Summary.png''))))))"

text \<open>Lines 142-144.\<close>

definition close_step :: "config \<Rightarrow> ('t, 'g, 'f) world \<Rightarrow> ('t, 'g, 'f, unit) prog" where
  "close_step cfg w = thenE (whenE (avg_show_plots cfg) (call w Show)) (call w Close_all)"

text \<open>Lines 105-144: everything that consumes the finished average.\<close>

definition output_steps ::
  "config \<Rightarrow> ('t, 'g, 'f) world \<Rightarrow> string \<Rightarrow> nat \<Rightarrow> 'f \<Rightarrow> ('t, 'g, 'f, unit) prog" where
  "output_steps cfg w outpath grp_num avg =
     thenE (save_step cfg w outpath grp_num avg)
    (thenE (avg_n_sd_step cfg w outpath grp_num avg)
    (thenE (mean_vectors_step cfg w outpath grp_num avg)
    (thenE (secondary_circulation_step cfg w outpath grp_num avg)
    (thenE (UVW_velocity_array_step cfg w outpath grp_num avg)
    (thenE (flow_summmary_step cfg w outpath grp_num avg)
           (close_step cfg w))))))"

text \<open>Lines 92-103: the average and its refinement; the value is the object handed on.\<close>

definition refine_steps ::
  "config \<Rightarrow> ('t, 'g, 'f) world \<Rightarrow> 'g \<Rightarrow> ('t, 'g, 'f, 'f) prog" where
  "refine_steps cfg w grp =
     bindE (average_step cfg w grp) (\<lambda>avg.
     bindE (rotate_step cfg w avg) (\<lambda>avg.
     bindE (sd_drop_step cfg w avg) (\<lambda>avg.
            smooth_step cfg w avg)))"

text \<open>The body of the loop over the groups, lines 87-144.\<close>

definition process_group ::
  "config \<Rightarrow> ('t, 'g, 'f) world \<Rightarrow> string \<Rightarrow> nat \<Rightarrow> 'g \<Rightarrow> ('t, 'g, 'f, unit) prog" where
  "process_group cfg w outpath grp_num grp =
     thenE (plot_xy_step cfg w outpath grp_num grp)
       (bindE (refine_steps cfg w grp) (output_steps cfg w outpath grp_num))"

text \<open>The loop of lines 85-145, with its counter \<open>grp_num\<close>.\<close>

fun group_loop ::
  "config \<Rightarrow> ('t, 'g, 'f) world \<Rightarrow> string \<Rightarrow> nat \<Rightarrow> 'g list \<Rightarrow> ('t, 'g, 'f, unit) prog" where
  "group_loop cfg w outpath grp_num [] = returnE ()"
| "group_loop cfg w outpath grp_num (grp # rest) =
     thenE (process_group cfg w outpath grp_num grp)
           (group_loop cfg w outpath (Suc grp_num) rest)"

text \<open>The whole function: preprocessing, grouping, the loop, the final message.\<close>

definition DWR_transect_average ::
  "config \<Rightarrow> ('t, 'g, 'f) world \<Rightarrow> string option \<Rightarrow> ('t, 'g, 'f, unit) prog" where
  "DWR_transect_average cfg w pre_process_input_file =
     thenE (call w (Preprocessor pre_process_input_file))
       (case preprocessed w pre_process_input_file of (transects, outpath) \<Rightarrow>
     thenE (call w (Print (''total transects loaded: '' @ str_nat (length transects))))
    (thenE (call w (Group_adcp_obs_by_spacetime transects
                      (avg_max_gap_m cfg) (avg_max_gap_minutes cfg) (avg_max_group_size cfg)))
       (let grps_to_average = grouped w transects
                      (avg_max_gap_m cfg) (avg_max_gap_minutes cfg) (avg_max_group_size cfg) in
     thenE (call w (Print (''total groups to average '' @ str_nat (length grps_to_average))))
    (thenE (group_loop cfg w outpath 0 grps_to_average)
           (call w (Print ''ADCP processing complete!''))))))"

section \<open>Reading a run\<close>

text \<open>
  \<open>ok\<close> says that no exception left a piece of the script, \<open>result\<close> is the value it
  then has. \<open>guard b xs\<close> is the part of a trace that exists only when \<open>b\<close> holds, and
  \<open>collect f tr\<close> gathers what \<open>f\<close> extracts from each call of a trace, in order.
\<close>

definition ok :: "('t, 'g, 'f, 'a) prog \<Rightarrow> bool" where
  "ok p = (case outcome p of Inl e \<Rightarrow> False | Inr x \<Rightarrow> True)"

definition result :: "('t, 'g, 'f, 'a) prog \<Rightarrow> 'a" where
  "result p = projr (outcome p)"

definition guard :: "bool \<Rightarrow> 'a list \<Rightarrow> 'a list" where
  "guard b xs = (if b then xs else [])"

definition collect :: "('c \<Rightarrow> 'a list) \<Rightarrow> 'c list \<Rightarrow> 'a list" where
  "collect f tr = concat (map f tr)"

text \<open>The three refinement steps, and which one a call belongs to.\<close>

datatype step = Rotation | Outlier_rejection | Smoothing

fun step_rank :: "step \<Rightarrow> nat" where
  "step_rank Rotation = 0"
| "step_rank Outlier_rejection = 1"
| "step_rank Smoothing = 2"

fun step_of :: "('t, 'g, 'f) call \<Rightarrow> step list" where
  "step_of (Transect_rotate avg mode) = [Rotation]"
| "step_of (Sd_drop avg sd sd_axis interp_holes) = [Outlier_rejection]"
| "step_of (Kernel_smooth avg kernel_size) = [Smoothing]"
| "step_of c = []"

text \<open>The arguments of the calls that the theorems below are about.\<close>

fun rotation_of :: "('t, 'g, 'f) call \<Rightarrow> ('f \<times> string) list" where
  "rotation_of (Transect_rotate avg mode) = [(avg, mode)]"
| "rotation_of c = []"

fun sd_of :: "('t, 'g, 'f) call \<Rightarrow> real list" where
  "sd_of (Sd_drop avg sd sd_axis interp_holes) = [sd]"
| "sd_of c = []"

fun sd_axis_of :: "('t, 'g, 'f) call \<Rightarrow> (string \<times> bool) list" where
  "sd_axis_of (Sd_drop avg sd sd_axis interp_holes) = [(sd_axis, interp_holes)]"
| "sd_axis_of c = []"

fun kernel_size_of :: "('t, 'g, 'f) call \<Rightarrow> int list" where
  "kernel_size_of (Kernel_smooth avg kernel_size) = [kernel_size]"
| "kernel_size_of c = []"

fun resolution_of :: "('t, 'g, 'f) call \<Rightarrow> (real \<times> real) list" where
  "resolution_of (Average_transects grp dxy dz return_ADCPy) = [(dxy, dz)]"
| "resolution_of c = []"

fun component_of :: "('t, 'g, 'f) call \<Rightarrow> pyval list" where
  "component_of (I_panel avg field uvw title units) = [uvw]"
| "component_of c = []"

text \<open>The file a call writes: a saved figure, the CSV file, the NetCDF file.\<close>

fun artifact_of :: "('t, 'g, 'f) call \<Rightarrow> string list" where
  "artifact_of (Savefig fname) = [fname]"
| "artifact_of (Write_csv_velocity avg fname no_header) = [fname]"
| "artifact_of (Write_nc avg fname zlib) = [fname]"
| "artifact_of c = []"

text \<open>
  The endings of the file names of one group, in the order the loop body writes them,
  and the names they give for group \<open>grp_num\<close> under \<open>outpath\<close>.
\<close>

definition artifact_suffixes :: "string list" where
  "artifact_suffixes =
     [''_xy_lines.png'', ''_velocity.csv'', ''.nc'', ''_U_avg_n_sd.png'', ''_V_avg_n_sd.png'',
      ''_W_avg_n_sd.png'', ''_mean_velocity.png'', ''_secondary_circulation.png'',
      ''_UVW_velocity.png'', ''_Flow_Summary.png'']"

definition group_artifact_names :: "string \<Rightarrow> nat \<Rightarrow> string list" where
  "group_artifact_names outpath grp_num =
     map (\<lambda>sfx. os_path_join outpath (''group'' @ fmt_03i grp_num @ sfx)) artifact_suffixes"

text \<open>The calls of a run in which every group is processed, numbered from \<open>grp_num\<close>.\<close>

fun all_group_calls ::
  "config \<Rightarrow> ('t, 'g, 'f) world \<Rightarrow> string \<Rightarrow> nat \<Rightarrow> 'g list \<Rightarrow> ('t, 'g, 'f) call list" where
  "all_group_calls cfg w outpath grp_num [] = []"
| "all_group_calls cfg w outpath grp_num (grp # rest) =
     calls (process_group cfg w outpath grp_num grp) @ all_group_calls cfg w outpath (Suc grp_num) rest"

text \<open>Decimal digits and the number a digit string denotes.\<close>

definition is_digit :: "char \<Rightarrow> bool" where
  "is_digit c = (c \<in> set ''0123456789'')"

definition digit_val :: "char \<Rightarrow> nat" where
  "digit_val c = of_char c - 48"

definition str_val :: "string \<Rightarrow> nat" where
  "str_val s = foldl (\<lambda>a c. 10 * a + digit_val c) 0 s"

definition path_prefix :: "string \<Rightarrow> string" where
  "path_prefix a = (if a = [] \<or> last a = CHR ''/'' then a else a @ ''/'')"

section \<open>Concrete worlds\<close>

text \<open>
  Three transects \<open>0, 1, 2\<close>, grouped as \<open>[0, 1]\<close> and \<open>[2]\<close>, written under \<open>out\<close>. An
  averaged object is represented by the history of what was done to it.
\<close>

fun demo_yields :: "(nat, nat list, string) call \<Rightarrow> string" where
  "demo_yields (Average_transects grp dxy dz return_ADCPy) = ''avg''"
| "demo_yields (Transect_rotate avg mode) = avg @ ''+rot''"
| "demo_yields (Sd_drop avg sd sd_axis interp_holes) = avg @ ''+sd''"
| "demo_yields (Kernel_smooth avg kernel_size) = avg @ ''+smooth''"
| "demo_yields c = []"

text \<open>No collaborator ever raises.\<close>

definition calm_world :: "(nat, nat list, string) world" where
  "calm_world =
     \<lparr> raises = (\<lambda>c. False), yields = demo_yields,
       preprocessed = (\<lambda>f. ([0, 1, 2], ''out'')),
       grouped = (\<lambda>ts max_gap_m max_gap_minutes max_group_size. [take 2 ts, drop 2 ts]) \<rparr>"

text \<open>\<open>average_transects\<close> raises on the first group (a degenerate grid).\<close>

fun degenerate_first :: "(nat, nat list, string) call \<Rightarrow> bool" where
  "degenerate_first (Average_transects grp dxy dz return_ADCPy) = (grp = [0, 1])"
| "degenerate_first c = False"

definition degenerate_world :: "(nat, nat list, string) world" where
  "degenerate_world = calm_world \<lparr> raises := degenerate_first \<rparr>"

text \<open>\<open>average_transects\<close> raises on a bin resolution that is not positive.\<close>

fun rejects_resolution :: "(nat, nat list, string) call \<Rightarrow> bool" where
  "rejects_resolution (Average_transects grp dxy dz return_ADCPy) = (dxy \<le> 0 \<or> dz \<le> 0)"
| "rejects_resolution c = False"

definition strict_world :: "(nat, nat list, string) world" where
  "strict_world = calm_world \<lparr> raises := rejects_resolution \<rparr>"

text \<open>
  \<open>blames w p\<close>: if an exception left \<open>p\<close>, it was raised by one of the calls \<open>p\<close> made.
\<close>

definition blames :: "('t, 'g, 'f) world \<Rightarrow> ('t, 'g, 'f, 'a) prog \<Rightarrow> bool" where
  "blames w p =
     (case outcome p of
        Inl e \<Rightarrow> (\<exists>c \<in> set (calls p). e = Raised c \<and> raises w c)
      | Inr x \<Rightarrow> True)"

section \<open>Basic facts about runs\<close>

lemma guard_simps [simp]: "guard True xs = xs" "guard False xs = []" "guard b [] = []"
  by (simp_all add: guard_def)

lemma guard_cong [cong]: "b = b' \<Longrightarrow> (b' \<Longrightarrow> xs = xs') \<Longrightarrow> guard b xs = guard b' xs'"
  by (simp add: guard_def)

lemma set_guard: "set (guard b xs) = (if b then set xs else {})"
  by (simp add: guard_def)

lemma collect_simps [simp]:
  "collect f [] = []"
  "collect f (c # tr) = f c @ collect f tr"
  "collect f (tr @ tr') = collect f tr @ collect f tr'"
  "collect f (guard b tr) = guard b (collect f tr)"
  by (simp_all add: collect_def guard_def)

lemma returnE_simps [simp]:
  "calls (returnE x) = []" "ok (returnE x)" "result (returnE x) = x" "outcome (returnE x) = Inr x"
  by (simp_all add: returnE_def calls_def ok_def result_def outcome_def)

lemma raiseE_simps [simp]:
  "calls (raiseE e) = []" "\<not> ok (raiseE e)" "outcome (raiseE e) = Inl e"
  by (simp_all add: raiseE_def calls_def ok_def outcome_def)

lemma outcome_ok: "ok p \<Longrightarrow> outcome p = Inr (result p)"
  by (cases "outcome p") (simp_all add: ok_def result_def)

lemma ok_iff: "ok p \<longleftrightarrow> (\<exists>x. outcome p = Inr x)"
  by (cases "outcome p") (simp_all add: ok_def)

lemma calls_bindE [simp]: "calls (bindE m k) = calls m @ guard (ok m) (calls (k (result m)))"
  by (cases "fst m") (simp_all add: bindE_def calls_def ok_def result_def outcome_def)

lemma ok_bindE [simp]: "ok (bindE m k) \<longleftrightarrow> ok m \<and> ok (k (result m))"
  by (cases "fst m") (simp_all add: bindE_def ok_def result_def outcome_def)

lemma result_bindE [simp]: "ok m \<Longrightarrow> result (bindE m k) = result (k (result m))"
  by (cases "fst m") (simp_all add: bindE_def ok_def result_def outcome_def)

lemma outcome_bindE:
  "outcome (bindE m k) = (case outcome m of Inl e \<Rightarrow> Inl e | Inr x \<Rightarrow> outcome (k x))"
  by (cases "fst m") (simp_all add: bindE_def outcome_def)

lemma calls_thenE [simp]: "calls (thenE m k) = calls m @ guard (ok m) (calls k)"
  by (simp add: thenE_def)

lemma ok_thenE [simp]: "ok (thenE m k) \<longleftrightarrow> ok m \<and> ok k"
  by (simp add: thenE_def)

lemma outcome_thenE:
  "outcome (thenE m k) = (case outcome m of Inl e \<Rightarrow> Inl e | Inr x \<Rightarrow> outcome k)"
  by (simp add: thenE_def outcome_bindE)

lemma whenE_simps [simp]:
  "calls (whenE b m) = guard b (calls m)" "ok (whenE b m) \<longleftrightarrow> (b \<longrightarrow> ok m)"
  by (simp_all add: whenE_def)

lemma call_simps [simp]:
  "calls (call w c) = [c]" "ok (call w c) \<longleftrightarrow> \<not> raises w c"
  by (simp_all add: call_def calls_def ok_def outcome_def)

lemma call_field_simps [simp]:
  "calls (call_field w c) = [c]" "ok (call_field w c) \<longleftrightarrow> \<not> raises w c"
  "\<not> raises w c \<Longrightarrow> result (call_field w c) = yields w c"
  by (simp_all add: call_field_def calls_def ok_def outcome_def result_def)

lemmas step_defs = plot_xy_step_def save_step_def avg_n_sd_step_def mean_vectors_step_def
  secondary_circulation_step_def UVW_velocity_array_step_def flow_summmary_step_def
  close_step_def output_steps_def plot_avg_n_sd_def

lemma steps_plot_xy [simp]: "collect step_of (calls (plot_xy_step cfg w outpath n g)) = []"
  by (simp add: plot_xy_step_def)

lemma steps_output [simp]: "collect step_of (calls (output_steps cfg w outpath n avg)) = []"
  by (simp add: step_defs)


lemma steps_refine:
  "prefix (collect step_of (calls (refine_steps cfg w g)))
     ((case avg_rotation cfg of None \<Rightarrow> [] | Some mode \<Rightarrow> [Rotation]) @
      (if avg_std_drop cfg > 0 then [Outlier_rejection, Outlier_rejection] else []) @
      (if avg_smooth_kernel cfg > 2 then [Smoothing] else []))"
  "ok (refine_steps cfg w g) \<Longrightarrow> collect step_of (calls (refine_steps cfg w g)) =
     ((case avg_rotation cfg of None \<Rightarrow> [] | Some mode \<Rightarrow> [Rotation]) @
      (if avg_std_drop cfg > 0 then [Outlier_rejection, Outlier_rejection] else []) @
      (if avg_smooth_kernel cfg > 2 then [Smoothing] else []))"
  by (auto simp: refine_steps_def average_step_def rotate_step_def sd_drop_step_def
        smooth_step_def guard_def split: option.splits)

lemma steps_process_group:
  "collect step_of (calls (process_group cfg w outpath n g)) =
     guard (ok (plot_xy_step cfg w outpath n g)) (collect step_of (calls (refine_steps cfg w g)))"
  by (simp add: process_group_def)

lemma ok_process_group:
  "ok (process_group cfg w outpath n g) \<longleftrightarrow>
     ok (plot_xy_step cfg w outpath n g) \<and> ok (refine_steps cfg w g) \<and>
     ok (output_steps cfg w outpath n (result (refine_steps cfg w g)))"
  by (simp add: process_group_def)

lemmas refine_defs = refine_steps_def average_step_def rotate_step_def sd_drop_step_def
  smooth_step_def

lemma outputs_no_refine [simp]:
  "collect rotation_of (calls (output_steps cfg w outpath n avg)) = []"
  "collect sd_of (calls (output_steps cfg w outpath n avg)) = []"
  "collect sd_axis_of (calls (output_steps cfg w outpath n avg)) = []"
  "collect kernel_size_of (calls (output_steps cfg w outpath n avg)) = []"
  "collect resolution_of (calls (output_steps cfg w outpath n avg)) = []"
  by (simp_all add: step_defs)

lemma plot_xy_no_refine [simp]:
  "collect rotation_of (calls (plot_xy_step cfg w outpath n g)) = []"
  "collect sd_of (calls (plot_xy_step cfg w outpath n g)) = []"
  "collect sd_axis_of (calls (plot_xy_step cfg w outpath n g)) = []"
  "collect kernel_size_of (calls (plot_xy_step cfg w outpath n g)) = []"
  "collect resolution_of (calls (plot_xy_step cfg w outpath n g)) = []"
  by (simp_all add: plot_xy_step_def)

lemma collect_process_group:
  "collect f (calls (process_group cfg w outpath n g)) =
     collect f (calls (plot_xy_step cfg w outpath n g)) @
     guard (ok (plot_xy_step cfg w outpath n g))
       (collect f (calls (refine_steps cfg w g)) @
        guard (ok (refine_steps cfg w g))
          (collect f (calls (output_steps cfg w outpath n (result (refine_steps cfg w g))))))"
  by (simp add: process_group_def)

lemma average_not_in_plot_xy:
  "Average_transects g dxy dz r \<notin> set (calls (plot_xy_step cfg w outpath n g'))"
  by (simp add: plot_xy_step_def set_guard)

lemma list_all_guard [simp]: "list_all P (guard b xs) \<longleftrightarrow> (b \<longrightarrow> list_all P xs)"
  by (simp add: guard_def)

lemma fmt_03i_0: "fmt_03i 0 = ''000''" by code_simp

lemma fmt_03i_1: "fmt_03i (Suc 0) = ''001''" by code_simp

section \<open>The order of the refinement steps\<close>

text \<open>
  C4. Whatever the configuration and whatever the collaborators do, the refinement calls
  made for a group are an initial segment of: the rotation (when \<open>avg_rotation\<close> is not
  \<open>None\<close>), the two outlier rejections (when \<open>avg_std_drop > 0\<close>), the smoothing (when the
  script's test \<open>avg_smooth_kernel > 2\<close> holds). So no later step runs before an earlier
  one, and when the group is processed without an exception every enabled step has run,
  in this order.
\<close>

theorem refinement_order:
  "prefix (collect step_of (calls (process_group cfg w outpath n g)))
     ((case avg_rotation cfg of None \<Rightarrow> [] | Some mode \<Rightarrow> [Rotation]) @
      (if avg_std_drop cfg > 0 then [Outlier_rejection, Outlier_rejection] else []) @
      (if avg_smooth_kernel cfg > 2 then [Smoothing] else []))
   \<and> sorted (map step_rank (collect step_of (calls (process_group cfg w outpath n g))))
   \<and> (ok (process_group cfg w outpath n g) \<longrightarrow>
        collect step_of (calls (process_group cfg w outpath n g)) =
          (case avg_rotation cfg of None \<Rightarrow> [] | Some mode \<Rightarrow> [Rotation]) @
          (if avg_std_drop cfg > 0 then [Outlier_rejection, Outlier_rejection] else []) @
          (if avg_smooth_kernel cfg > 2 then [Smoothing] else []))"
proof -
  let ?E = "(case avg_rotation cfg of None \<Rightarrow> [] | Some mode \<Rightarrow> [Rotation]) @
      (if avg_std_drop cfg > 0 then [Outlier_rejection, Outlier_rejection] else []) @
      (if avg_smooth_kernel cfg > 2 then [Smoothing] else [])"
  let ?S = "collect step_of (calls (process_group cfg w outpath n g))"
  have pre: "prefix ?S ?E"
    using steps_refine(1) [of cfg w g] by (simp add: steps_process_group guard_def)
  have srt: "sorted (map step_rank ?E)"
    by (simp split: option.splits)
  from pre obtain zs where "?E = ?S @ zs"
    by (auto simp: prefix_def)
  with srt have "sorted (map step_rank ?S)"
    by (simp add: sorted_append)
  moreover have "ok (process_group cfg w outpath n g) \<longrightarrow> ?S = ?E"
    using steps_refine(2) [of cfg w g] by (simp add: steps_process_group ok_process_group)
  ultimately show ?thesis using pre by blast
qed

theorem refinement_order_witness:
  "ok (process_group default_config calm_world ''out'' 0 [0, 1]) \<and>
   collect step_of (calls (process_group default_config calm_world ''out'' 0 [0, 1])) =
     [Rotation, Outlier_rejection, Outlier_rejection, Smoothing]"
proof -
  have h: "ok (process_group default_config calm_world ''out'' 0 [0, 1])"
    by (simp add: process_group_def refine_steps_def average_step_def rotate_step_def
          sd_drop_step_def smooth_step_def step_defs calm_world_def default_config_def)
  show ?thesis
    using h refinement_order [of default_config calm_world "''out''" 0 "[0, 1]"]
    by (simp add: default_config_def)
qed

section \<open>Rotation\<close>

text \<open>
  C6. Once \<open>average_transects\<close> has returned the averaged object of a group, the rotation
  calls made for that group are: none when \<open>avg_rotation\<close> is \<open>None\<close>, and otherwise
  exactly one call of \<open>transect_rotate\<close>, on that averaged object, with the configured
  mode.
\<close>

theorem rotation_iff_configured:
  assumes "Average_transects g (avg_dxy cfg) (avg_dz cfg) True
             \<in> set (calls (process_group cfg w outpath n g))"
      and "\<not> raises w (Average_transects g (avg_dxy cfg) (avg_dz cfg) True)"
  shows "collect rotation_of (calls (process_group cfg w outpath n g)) =
           (case avg_rotation cfg of
              None \<Rightarrow> []
            | Some mode \<Rightarrow> [(yields w (Average_transects g (avg_dxy cfg) (avg_dz cfg) True), mode)])"
proof -
  have "ok (plot_xy_step cfg w outpath n g)"
  proof (rule ccontr)
    assume "\<not> ok (plot_xy_step cfg w outpath n g)"
    then have "calls (process_group cfg w outpath n g) = calls (plot_xy_step cfg w outpath n g)"
      by (simp add: process_group_def)
    with assms(1) show False
      by (simp add: average_not_in_plot_xy)
  qed
  moreover have "collect rotation_of (calls (refine_steps cfg w g)) =
           (case avg_rotation cfg of
              None \<Rightarrow> []
            | Some mode \<Rightarrow> [(yields w (Average_transects g (avg_dxy cfg) (avg_dz cfg) True), mode)])"
    using assms(2) by (auto simp: refine_defs guard_def split: option.splits)
  ultimately show ?thesis
    by (simp add: collect_process_group)
qed

theorem rotation_iff_configured_witness:
  "Average_transects [0, 1] (avg_dxy default_config) (avg_dz default_config) True
     \<in> set (calls (process_group default_config calm_world ''out'' 0 [0, 1])) \<and>
   \<not> raises calm_world (Average_transects [0, 1] (avg_dxy default_config) (avg_dz default_config) True) \<and>
   collect rotation_of (calls (process_group default_config calm_world ''out'' 0 [0, 1])) =
     [(''avg'', ''Rozovski'')]"
proof -
  have h: "Average_transects [0, 1] (avg_dxy default_config) (avg_dz default_config) True
     \<in> set (calls (process_group default_config calm_world ''out'' 0 [0, 1]))"
    by (simp add: process_group_def refine_defs plot_xy_step_def calm_world_def default_config_def)
  have k: "\<not> raises calm_world (Average_transects [0, 1] (avg_dxy default_config) (avg_dz default_config) True)"
    by (simp add: calm_world_def)
  show ?thesis
    using h k rotation_iff_configured [OF h k]
    by (simp add: default_config_def calm_world_def)
qed

section \<open>Outlier rejection\<close>

text \<open>
  C5. When \<open>avg_std_drop > 0\<close>, the \<open>sd_drop\<close> calls of a group are, in this order, the one
  along \<open>'elevation'\<close> and the one along \<open>'ensemble'\<close>, each with \<open>interp_holes\<close> equal to
  \<open>avg_std_interp\<close>: always an initial segment of the two (an exception may end the
  group early), and both when the group is processed without an exception.
\<close>

theorem sd_drop_axes:
  assumes "avg_std_drop cfg > 0"
  shows "prefix (collect sd_axis_of (calls (process_group cfg w outpath n g)))
           [(''elevation'', avg_std_interp cfg), (''ensemble'', avg_std_interp cfg)]
         \<and> (ok (process_group cfg w outpath n g) \<longrightarrow>
              collect sd_axis_of (calls (process_group cfg w outpath n g)) =
                [(''elevation'', avg_std_interp cfg), (''ensemble'', avg_std_interp cfg)])"
proof -
  have "prefix (collect sd_axis_of (calls (refine_steps cfg w g)))
          [(''elevation'', avg_std_interp cfg), (''ensemble'', avg_std_interp cfg)]"
    using assms by (auto simp: refine_defs guard_def split: option.splits)
  moreover have "ok (refine_steps cfg w g) \<Longrightarrow> collect sd_axis_of (calls (refine_steps cfg w g)) =
          [(''elevation'', avg_std_interp cfg), (''ensemble'', avg_std_interp cfg)]"
    using assms by (auto simp: refine_defs guard_def split: option.splits)
  ultimately show ?thesis
    by (simp add: collect_process_group ok_process_group guard_def)
qed

theorem sd_drop_axes_witness:
  "avg_std_drop default_config > 0 \<and>
   ok (process_group default_config calm_world ''out'' 0 [0, 1]) \<and>
   collect sd_axis_of (calls (process_group default_config calm_world ''out'' 0 [0, 1])) =
     [(''elevation'', True), (''ensemble'', True)]"
proof -
  have h: "avg_std_drop default_config > 0"
    by (simp add: default_config_def)
  have k: "ok (process_group default_config calm_world ''out'' 0 [0, 1])"
    by (simp add: process_group_def refine_defs step_defs calm_world_def default_config_def)
  show ?thesis
    using h k sd_drop_axes [OF h, of calm_world "''out''" 0 "[0, 1]"]
    by (simp add: default_config_def)
qed

text \<open>
  C1. The threshold handed to \<open>sd_drop\<close> is the literal \<open>3.0\<close> of lines 96 and 99, not the
  option: with \<open>avg_std_drop = 2.0\<close> both calls still receive \<open>sd = 3\<close>.
\<close>

theorem sd_threshold_is_literal:
  "avg_std_drop (default_config \<lparr> avg_std_drop := 2 \<rparr>) = 2 \<and>
   collect sd_of (calls (process_group (default_config \<lparr> avg_std_drop := 2 \<rparr>) calm_world ''out'' 0 [0, 1]))
     = [3, 3]"
  by (simp add: collect_process_group refine_defs plot_xy_step_def calm_world_def default_config_def)

section \<open>Smoothing\<close>

text \<open>
  C2. The kernel size handed to \<open>kernel_smooth\<close> is the literal \<open>3\<close> of line 103, not
  the option: with the script's own \<open>avg_smooth_kernel = 5\<close> the call receives
  \<open>kernel_size = 3\<close>.
\<close>

theorem kernel_size_is_literal:
  "avg_smooth_kernel default_config = 5 \<and>
   collect kernel_size_of (calls (process_group default_config calm_world ''out'' 0 [0, 1])) = [3]"
  by (simp add: collect_process_group refine_defs plot_xy_step_def calm_world_def default_config_def)

text \<open>
  C9. When \<open>avg_smooth_kernel\<close> is at most 1, the smoothing stage returns the averaged
  object it was given and calls nothing; no \<open>kernel_smooth\<close> call is made for the group.
\<close>

theorem small_kernel_no_smoothing:
  assumes "avg_smooth_kernel cfg \<le> 1"
  shows "outcome (smooth_step cfg w avg) = Inr avg \<and> calls (smooth_step cfg w avg) = [] \<and>
         collect kernel_size_of (calls (process_group cfg w outpath n g)) = []"
  using assms
  by (auto simp: smooth_step_def collect_process_group refine_defs guard_def split: option.splits)

theorem small_kernel_no_smoothing_witness:
  "avg_smooth_kernel (default_config \<lparr> avg_smooth_kernel := 1 \<rparr>) \<le> 1 \<and>
   outcome (smooth_step (default_config \<lparr> avg_smooth_kernel := 1 \<rparr>) calm_world ''avg+rot+sd+sd'')
     = Inr ''avg+rot+sd+sd'' \<and>
   collect kernel_size_of
     (calls (process_group (default_config \<lparr> avg_smooth_kernel := 1 \<rparr>) calm_world ''out'' 0 [0, 1])) = []"
proof -
  have h: "avg_smooth_kernel (default_config \<lparr> avg_smooth_kernel := 1 \<rparr>) \<le> 1"
    by simp
  show ?thesis
    using h small_kernel_no_smoothing [OF h, of calm_world "''avg+rot+sd+sd''" "''out''" 0 "[0, 1]"]
    by simp
qed

section \<open>The label chosen by \<open>plot_avg_n_sd\<close>\<close>

lemma components_plot_avg_n_sd:
  "P uvw \<Longrightarrow> list_all P (collect component_of (calls (plot_avg_n_sd w avg uvw r)))"
  by (simp add: plot_avg_n_sd_def)

lemma components_refine [simp]: "collect component_of (calls (refine_steps cfg w g)) = []"
  by (simp add: refine_defs split: option.splits)

lemma components_plot_xy [simp]: "collect component_of (calls (plot_xy_step cfg w outpath n g)) = []"
  by (simp add: plot_xy_step_def)

lemma components_output:
  "list_all (\<lambda>v. v \<in> {PInt 0, PInt 1, PInt 2})
     (collect component_of (calls (output_steps cfg w outpath n avg)))"
  by (simp add: output_steps_def save_step_def avg_n_sd_step_def mean_vectors_step_def
        secondary_circulation_step_def UVW_velocity_array_step_def flow_summmary_step_def
        close_step_def components_plot_avg_n_sd)

lemma components_process_group:
  "set (collect component_of (calls (process_group cfg w outpath n g))) \<subseteq> {PInt 0, PInt 1, PInt 2}"
proof -
  have "list_all (\<lambda>v. v \<in> {PInt 0, PInt 1, PInt 2})
          (collect component_of (calls (process_group cfg w outpath n g)))"
    using components_output [of cfg w outpath n] by (simp add: collect_process_group)
  then show ?thesis
    by (auto simp: list_all_iff)
qed

text \<open>
  C10. The label is chosen by comparing \<open>uvw\<close> with the integers 0 and 1: it is \<open>U\<close>
  exactly when \<open>uvw == 0\<close>, \<open>V\<close> exactly when \<open>uvw == 1\<close> (and not \<open>uvw == 0\<close>), and \<open>W\<close>
  for everything else: 2, any other integer, any number that is neither 0 nor 1, \<open>None\<close>
  and every string, the docstring's \<open>'U'\<close> and \<open>'V'\<close> included. The label heads the
  title of the first panel. The loop body passes only the integers 0, 1 and 2.
\<close>

theorem label_by_integer_comparison:
  "v_str (PInt 0) = ''U'' \<and> v_str (PInt 1) = ''V'' \<and> v_str (PInt 2) = ''W''
   \<and> v_str (PStr ''U'') = ''W'' \<and> v_str (PStr ''V'') = ''W'' \<and> v_str (PStr ''W'') = ''W''
   \<and> (v_str uvw = ''U'' \<longleftrightarrow> py_eq_int uvw 0)
   \<and> (v_str uvw = ''V'' \<longleftrightarrow> \<not> py_eq_int uvw 0 \<and> py_eq_int uvw 1)
   \<and> (v_str uvw = ''W'' \<longleftrightarrow> \<not> py_eq_int uvw 0 \<and> \<not> py_eq_int uvw 1)
   \<and> (k \<noteq> 0 \<and> k \<noteq> 1 \<longrightarrow> v_str (PInt k) = ''W'')
   \<and> (r \<noteq> 0 \<and> r \<noteq> 1 \<longrightarrow> v_str (PFloat r) = ''W'')
   \<and> v_str (PStr s) = ''W'' \<and> v_str PNone = ''W''
   \<and> (resolution \<noteq> 0 \<and> \<not> raises w (Find_projection_distances avg) \<longrightarrow>
        I_panel avg ''velocity'' uvw (v_str uvw @ '' Averaged Velocity [m/s]'') ''m/s''
          \<in> set (calls (plot_avg_n_sd w avg uvw resolution)))
   \<and> set (collect component_of (calls (process_group cfg w outpath n g)))
        \<subseteq> {PInt 0, PInt 1, PInt 2}"
proof -
  have "resolution \<noteq> 0 \<and> \<not> raises w (Find_projection_distances avg) \<longrightarrow>
        I_panel avg ''velocity'' uvw (v_str uvw @ '' Averaged Velocity [m/s]'') ''m/s''
          \<in> set (calls (plot_avg_n_sd w avg uvw resolution))"
    by (simp add: plot_avg_n_sd_def)
  then show ?thesis
    using components_process_group [of cfg w outpath n g]
    by (simp add: v_str_def)
qed

theorem label_by_integer_comparison_witness:
  "(2::int) \<noteq> 0 \<and> (2::int) \<noteq> 1 \<and> v_str (PInt 2) = ''W''
   \<and> (1/2::real) \<noteq> 0 \<and> (1/2::real) \<noteq> 1 \<and> v_str (PFloat (1/2)) = ''W''
   \<and> (0.05::real) \<noteq> 0 \<and> \<not> raises calm_world (Find_projection_distances ''avg'')
   \<and> I_panel ''avg'' ''velocity'' (PStr ''U'') ''W Averaged Velocity [m/s]'' ''m/s''
        \<in> set (calls (plot_avg_n_sd calm_world ''avg'' (PStr ''U'') 0.05))
   \<and> collect component_of (calls (process_group default_config calm_world ''out'' 0 [0, 1])) =
        [PInt 0, PInt 0, PInt 0, PInt 1, PInt 1, PInt 1, PInt 2, PInt 2, PInt 2]"
proof -
  have h: "\<not> raises calm_world (Find_projection_distances ''avg'')"
    by (simp add: calm_world_def)
  have c: "collect component_of (calls (process_group default_config calm_world ''out'' 0 [0, 1])) =
        [PInt 0, PInt 0, PInt 0, PInt 1, PInt 1, PInt 1, PInt 2, PInt 2, PInt 2]"
    by (simp add: collect_process_group step_defs refine_defs calm_world_def default_config_def)
  show ?thesis
    using h c label_by_integer_comparison
      [of "PStr ''U''" 2 "1/2" "''U''" "0.05" calm_world "''avg''" default_config "''out''" 0 "[0, 1]"]
    by (simp add: v_str_def)
qed

section \<open>Failures\<close>

lemma outcome_call:
  "outcome (call w c) = (if raises w c then Inl (Raised c) else Inr ())"
  "outcome (call_field w c) = (if raises w c then Inl (Raised c) else Inr (yields w c))"
  by (simp_all add: call_def call_field_def outcome_def)

lemma outcome_whenE: "outcome (whenE b m) = (if b then outcome m else Inr ())"
  by (simp add: whenE_def)

lemma outcome_thenE_ok: "ok m \<Longrightarrow> outcome (thenE m k) = outcome k"
  by (cases "outcome m") (simp_all add: outcome_thenE ok_def)

lemma outcome_thenE_failed:
  fixes m :: "('t, 'g, 'f, unit) prog"
  shows "\<not> ok m \<Longrightarrow> outcome (thenE m k) = outcome m"
  by (cases "outcome m") (simp_all add: outcome_thenE ok_def)

lemma group_loop_append:
  "ok (group_loop cfg w outpath n pre) \<Longrightarrow>
     calls (group_loop cfg w outpath n (pre @ rest)) =
       calls (group_loop cfg w outpath n pre) @ calls (group_loop cfg w outpath (n + length pre) rest)
     \<and> outcome (group_loop cfg w outpath n (pre @ rest)) =
       outcome (group_loop cfg w outpath (n + length pre) rest)"
proof (induction pre arbitrary: n)
  case Nil
  then show ?case by simp
next
  case (Cons g pre)
  from Cons.prems have a: "ok (process_group cfg w outpath n g)"
    and b: "ok (group_loop cfg w outpath (Suc n) pre)"
    by simp_all
  from Cons.IH [OF b] a show ?case
    by (simp add: outcome_thenE_ok)
qed

lemma str_nat_small: "str_nat (Suc (Suc 0)) = ''2''" "str_nat (Suc (Suc (Suc 0))) = ''3''"
  by code_simp+

lemma os_path_join_out: "os_path_join ''out'' (CHR ''g'' # s) = ''out/'' @ CHR ''g'' # s"
  by (simp add: os_path_join_def)

lemmas run_eval = DWR_transect_average_def calm_world_def str_nat_small process_group_def
  plot_xy_step_def refine_defs fmt_03i_0 os_path_join_out outcome_thenE outcome_bindE
  outcome_call outcome_whenE

text \<open>
  C3, as the script has it. The loop has no \<open>try\<close>: when the processing of a group
  fails, after the groups before it were processed, the loop ends with that group's
  exception; its calls are those of the groups before and those the failing group made
  up to the exception, whatever groups follow.
\<close>

theorem group_failure_ends_run:
  assumes "ok (group_loop cfg w outpath 0 pre)"
      and "\<not> ok (process_group cfg w outpath (length pre) g)"
  shows "outcome (group_loop cfg w outpath 0 (pre @ g # post)) =
           outcome (process_group cfg w outpath (length pre) g)
         \<and> calls (group_loop cfg w outpath 0 (pre @ g # post)) =
           calls (group_loop cfg w outpath 0 pre) @ calls (process_group cfg w outpath (length pre) g)"
  using group_loop_append [OF assms(1), of "g # post"] assms(2)
  by (simp add: outcome_thenE_failed)

theorem group_failure_ends_run_witness:
  "ok (group_loop default_config degenerate_world ''out'' 0 [[2]])
   \<and> \<not> ok (process_group default_config degenerate_world ''out'' (length [[2::nat]]) [0, 1])
   \<and> outcome (group_loop default_config degenerate_world ''out'' 0 ([[2]] @ [0, 1] # [[5]])) =
       Inl (Raised (Average_transects [0, 1] 2 (1/4) True))"
proof -
  have h: "ok (group_loop default_config degenerate_world ''out'' 0 [[2]])"
    by (simp add: process_group_def refine_defs step_defs degenerate_world_def calm_world_def
          default_config_def)
  have k: "\<not> ok (process_group default_config degenerate_world ''out'' (length [[2::nat]]) [0, 1])"
    by (simp add: process_group_def refine_defs degenerate_world_def calm_world_def
          default_config_def)
  have "outcome (process_group default_config degenerate_world ''out'' (length [[2::nat]]) [0, 1]) =
          Inl (Raised (Average_transects [0, 1] 2 (1/4) True))"
    by (simp add: process_group_def refine_defs plot_xy_step_def degenerate_world_def calm_world_def
          default_config_def outcome_thenE outcome_bindE outcome_call outcome_whenE)
  then show ?thesis
    using h k group_failure_ends_run [OF h k, of "[[5]]"] by simp
qed

text \<open>
  C3 as stated fails: when \<open>average_transects\<close> raises on the first of two groups, the
  run ends with that exception right after the call, and the second group \<open>[2]\<close> is
  never touched.
\<close>

theorem group_failure_halts_batch:
  "outcome (DWR_transect_average default_config degenerate_world None) =
     Inl (Raised (Average_transects [0, 1] 2 (1/4) True))
   \<and> calls (DWR_transect_average default_config degenerate_world None) =
     [Preprocessor None, Print ''total transects loaded: 3'',
      Group_adcp_obs_by_spacetime [0, 1, 2] 30 20 6,
      Print ''total groups to average 2'',
      Plot_obs_group_xy_lines [0, 1] ''Group000 Source Observations'',
      Savefig ''out/group000_xy_lines.png'',
      Average_transects [0, 1] 2 (1/4) True]"
  by (simp add: run_eval degenerate_world_def default_config_def)

lemma blames_returnE [simp]: "blames w (returnE x)"
  by (simp add: blames_def)

lemma blames_call [simp]: "blames w (call w c)" "blames w (call_field w c)"
  by (simp_all add: blames_def outcome_call)

lemma blames_bindE: "blames w m \<Longrightarrow> (\<And>x. blames w (k x)) \<Longrightarrow> blames w (bindE m k)"
proof (cases "outcome m")
  case (Inl e)
  assume "blames w m"
  with Inl show ?thesis
    by (auto simp: blames_def outcome_bindE)
next
  case (Inr x)
  assume "\<And>x. blames w (k x)"
  then have "blames w (k x)" .
  moreover from Inr have "ok m" "result m = x"
    by (simp_all add: ok_def result_def)
  ultimately show ?thesis using Inr
    by (auto simp: blames_def outcome_bindE split: sum.splits)
qed

lemma blames_thenE: "blames w m \<Longrightarrow> blames w k \<Longrightarrow> blames w (thenE m k)"
  by (simp add: thenE_def blames_bindE)

lemma blames_whenE: "blames w m \<Longrightarrow> blames w (whenE b m)"
  by (simp add: whenE_def)

lemma blames_for_each: "(\<And>x. blames w (body x)) \<Longrightarrow> blames w (for_each xs body)"
  by (induction xs) (simp_all add: blames_thenE)

lemma blames_plot_avg_n_sd: "r \<noteq> 0 \<Longrightarrow> blames w (plot_avg_n_sd w avg uvw r)"
  by (simp add: plot_avg_n_sd_def blames_thenE)

lemmas blames_intros = blames_bindE blames_thenE blames_whenE blames_for_each blames_plot_avg_n_sd

lemma blames_refine_each [simp]:
  "blames w (average_step cfg w g)" "blames w (rotate_step cfg w avg)"
  "blames w (sd_drop_step cfg w avg)" "blames w (smooth_step cfg w avg)"
  by (simp_all add: average_step_def rotate_step_def sd_drop_step_def smooth_step_def
        blames_bindE split: option.splits)

lemma blames_refine: "blames w (refine_steps cfg w g)"
  unfolding refine_steps_def by (intro blames_intros; simp)

lemma blames_output: "blames w (output_steps cfg w outpath n avg)"
  unfolding output_steps_def save_step_def avg_n_sd_step_def mean_vectors_step_def
    secondary_circulation_step_def UVW_velocity_array_step_def flow_summmary_step_def close_step_def
  by (intro blames_intros; simp)

lemma blames_process_group: "blames w (process_group cfg w outpath n g)"
  unfolding process_group_def plot_xy_step_def
  by (intro blames_intros blames_refine blames_output; simp)

lemma blames_group_loop: "blames w (group_loop cfg w outpath n gs)"
  by (induction gs arbitrary: n) (simp_all add: blames_thenE blames_process_group)

lemma blames_run: "blames w (DWR_transect_average cfg w f)"
  unfolding DWR_transect_average_def Let_def
  by (auto split: prod.splits intro!: blames_thenE blames_group_loop)

lemma resolution_group_loop:
  "list_all (\<lambda>p. p = (avg_dxy cfg, avg_dz cfg))
     (collect resolution_of (calls (group_loop cfg w outpath n gs)))"
  by (induction gs arbitrary: n)
     (simp_all add: collect_process_group refine_defs split: option.splits)

text \<open>
  C8, as the script has it. The driver checks nothing about its options: whatever the
  configuration, a run fails only by an exception that one of its collaborator calls
  raised, and every \<open>average_transects\<close> call receives \<open>avg_dxy\<close> and \<open>avg_dz\<close> as they
  are configured.
\<close>

theorem no_configuration_check:
  "(outcome (DWR_transect_average cfg w f) = Inl e \<longrightarrow>
      (\<exists>c. e = Raised c \<and> raises w c \<and> c \<in> set (calls (DWR_transect_average cfg w f))))
   \<and> list_all (\<lambda>p. p = (avg_dxy cfg, avg_dz cfg))
        (collect resolution_of (calls (DWR_transect_average cfg w f)))"
proof -
  have "list_all (\<lambda>p. p = (avg_dxy cfg, avg_dz cfg))
        (collect resolution_of (calls (DWR_transect_average cfg w f)))"
    using resolution_group_loop [of cfg w]
    by (simp add: DWR_transect_average_def Let_def split: prod.splits)
  then show ?thesis
    using blames_run [of w cfg f] by (auto simp: blames_def)
qed

theorem no_configuration_check_witness:
  "outcome (DWR_transect_average (default_config \<lparr> avg_dxy := 0 \<rparr>) strict_world None) =
     Inl (Raised (Average_transects [0, 1] 0 (1/4) True))
   \<and> raises strict_world (Average_transects [0, 1] 0 (1/4) True)
   \<and> Average_transects [0, 1] 0 (1/4) True
       \<in> set (calls (DWR_transect_average (default_config \<lparr> avg_dxy := 0 \<rparr>) strict_world None))"
proof -
  have h: "outcome (DWR_transect_average (default_config \<lparr> avg_dxy := 0 \<rparr>) strict_world None) =
     Inl (Raised (Average_transects [0, 1] 0 (1/4) True))"
    by (simp add: run_eval strict_world_def default_config_def)
  show ?thesis
    using h no_configuration_check
      [of "default_config \<lparr> avg_dxy := 0 \<rparr>" strict_world None
          "Raised (Average_transects [0, 1] 0 (1/4) True)"]
    by simp
qed

text \<open>
  C8 as stated fails: with \<open>avg_dxy = 0\<close>, and an \<open>average_transects\<close> that rejects such
  a resolution, the run fails only inside the first group, after that group's plot of
  source observations has been drawn and saved.
\<close>

theorem invalid_resolution_reaches_group:
  "avg_dxy (default_config \<lparr> avg_dxy := 0 \<rparr>) = 0
   \<and> outcome (DWR_transect_average (default_config \<lparr> avg_dxy := 0 \<rparr>) strict_world None) =
     Inl (Raised (Average_transects [0, 1] 0 (1/4) True))
   \<and> calls (DWR_transect_average (default_config \<lparr> avg_dxy := 0 \<rparr>) strict_world None) =
     [Preprocessor None, Print ''total transects loaded: 3'',
      Group_adcp_obs_by_spacetime [0, 1, 2] 30 20 6,
      Print ''total groups to average 2'',
      Plot_obs_group_xy_lines [0, 1] ''Group000 Source Observations'',
      Savefig ''out/group000_xy_lines.png'',
      Average_transects [0, 1] 0 (1/4) True]"
  by (simp add: run_eval strict_world_def default_config_def)

section \<open>The names of the files a run writes\<close>

lemma digit_cases: "d < 10 \<Longrightarrow> d \<in> {0, 1, 2, 3, 4, 5, 6, 7, 8, 9::nat}"
  by auto

lemma digit_char_is_digit: "d < 10 \<Longrightarrow> is_digit (digit_char d)"
  unfolding is_digit_def digit_char_def by (rule nth_mem) simp

lemma digit_val_char: "d < 10 \<Longrightarrow> digit_val (digit_char d) = d"
  using digit_cases [of d] by (auto simp: digit_val_def digit_char_def)

lemma str_nat_digits: "list_all is_digit (str_nat n)"
proof (induction n rule: str_nat.induct)
  case (1 n)
  show ?case
  proof (cases "n < 10")
    case True
    then show ?thesis
      by (subst str_nat.simps) (simp add: digit_char_is_digit)
  next
    case False
    with 1 show ?thesis
      by (subst str_nat.simps) (simp add: digit_char_is_digit)
  qed
qed

lemma str_val_str_nat: "str_val (str_nat n) = n"
proof (induction n rule: str_nat.induct)
  case (1 n)
  show ?case
  proof (cases "n < 10")
    case True
    then show ?thesis
      by (subst str_nat.simps) (simp add: str_val_def digit_val_char)
  next
    case False
    with 1 have "str_val (str_nat (n div 10)) = n div 10"
      by simp
    with False show ?thesis
      by (subst str_nat.simps) (simp add: str_val_def digit_val_char)
  qed
qed

lemma str_val_zeros: "str_val (replicate k (CHR ''0'') @ s) = str_val s"
  by (induction k) (simp_all add: str_val_def digit_val_def)

lemma str_val_fmt_03i: "str_val (fmt_03i n) = n"
  by (simp add: fmt_03i_def str_val_zeros str_val_str_nat)

lemma fmt_03i_inj: "fmt_03i i = fmt_03i j \<Longrightarrow> i = j"
  by (metis str_val_fmt_03i)

lemma fmt_03i_digits: "list_all is_digit (fmt_03i n)"
proof -
  have z: "is_digit (CHR ''0'')"
    by (simp add: is_digit_def)
  have "list_all is_digit (replicate k (CHR ''0''))" for k
    by (induction k) (simp_all add: z)
  then show ?thesis
    by (simp add: fmt_03i_def str_nat_digits)
qed

lemma takeWhile_all_then_stop:
  "list_all P xs \<Longrightarrow> ys \<noteq> [] \<Longrightarrow> \<not> P (hd ys) \<Longrightarrow> takeWhile P (xs @ ys) = xs"
  by (cases ys) (simp_all add: list_all_iff takeWhile_append2)

lemma artifact_suffix_start:
  "s \<in> set artifact_suffixes \<Longrightarrow> s \<noteq> [] \<and> \<not> is_digit (hd s)"
  by (auto simp: artifact_suffixes_def is_digit_def)

lemma fmt_03i_suffix_eq:
  assumes "s \<in> set artifact_suffixes" "t \<in> set artifact_suffixes"
      and "fmt_03i i @ s = fmt_03i j @ t"
  shows "i = j"
proof -
  have "takeWhile is_digit (fmt_03i i @ s) = fmt_03i i"
    using assms(1) by (simp add: takeWhile_all_then_stop fmt_03i_digits artifact_suffix_start)
  moreover have "takeWhile is_digit (fmt_03i j @ t) = fmt_03i j"
    using assms(2) by (simp add: takeWhile_all_then_stop fmt_03i_digits artifact_suffix_start)
  ultimately have "fmt_03i i = fmt_03i j"
    using assms(3) by simp
  then show ?thesis
    by (rule fmt_03i_inj)
qed

lemma os_path_join_group:
  "os_path_join a (CHR ''g'' # x) = path_prefix a @ CHR ''g'' # x"
  by (simp add: os_path_join_def path_prefix_def)

lemma group_artifact_names_alt:
  "group_artifact_names a n =
     map (\<lambda>sfx. path_prefix a @ ''group'' @ fmt_03i n @ sfx) artifact_suffixes"
  by (simp add: group_artifact_names_def os_path_join_group)

lemma distinct_artifact_suffixes: "distinct artifact_suffixes"
  by (simp add: artifact_suffixes_def)

lemma distinct_group_artifact_names: "distinct (group_artifact_names a n)"
  unfolding group_artifact_names_alt
  by (simp add: distinct_map distinct_artifact_suffixes inj_on_def)

lemma group_artifact_names_disjoint:
  assumes "i \<noteq> j"
  shows "set (group_artifact_names a i) \<inter> set (group_artifact_names a j) = {}"
proof (rule ccontr)
  assume "set (group_artifact_names a i) \<inter> set (group_artifact_names a j) \<noteq> {}"
  then obtain s t where "s \<in> set artifact_suffixes" "t \<in> set artifact_suffixes"
    and "path_prefix a @ ''group'' @ fmt_03i i @ s = path_prefix a @ ''group'' @ fmt_03i j @ t"
    unfolding group_artifact_names_alt by auto
  then have "i = j"
    using fmt_03i_suffix_eq [of s t i j] by simp
  with assms show False by simp
qed

lemma subseq_guard: "subseq xs ys \<Longrightarrow> subseq (guard b xs) ys"
  by (simp add: guard_def)

lemma subseq_append_guard:
  "subseq xs xs' \<Longrightarrow> subseq ys ys' \<Longrightarrow> subseq (xs @ guard b ys) (xs' @ ys')"
  using list_emb_append_mono [of "(=)" xs xs' "guard b ys" ys'] by (simp add: subseq_guard)

lemma artifacts_plot_avg_n_sd [simp]:
  "collect artifact_of (calls (plot_avg_n_sd w avg uvw r)) = []"
  by (simp add: plot_avg_n_sd_def)

lemma artifacts_refine [simp]: "collect artifact_of (calls (refine_steps cfg w g)) = []"
  by (simp add: refine_defs split: option.splits)

lemma artifacts_close [simp]: "collect artifact_of (calls (close_step cfg w)) = []"
  by (simp add: close_step_def)

lemma artifacts_plot_xy:
  "subseq (collect artifact_of (calls (plot_xy_step cfg w a n g)))
     [os_path_join a (''group'' @ fmt_03i n @ ''_xy_lines.png'')]"
  by (simp add: plot_xy_step_def guard_def)

lemma artifacts_save:
  "subseq (collect artifact_of (calls (save_step cfg w a n avg)))
     [os_path_join a (''group'' @ fmt_03i n @ ''_velocity.csv''),
      os_path_join a (''group'' @ fmt_03i n @ ''.nc'')]"
  by (simp add: save_step_def guard_def)

lemma artifacts_avg_n_sd:
  "subseq (collect artifact_of (calls (avg_n_sd_step cfg w a n avg)))
     [os_path_join a (''group'' @ fmt_03i n @ ''_U_avg_n_sd.png''),
      os_path_join a (''group'' @ fmt_03i n @ ''_V_avg_n_sd.png''),
      os_path_join a (''group'' @ fmt_03i n @ ''_W_avg_n_sd.png'')]"
  by (simp add: avg_n_sd_step_def guard_def)

lemma artifacts_mean_vectors:
  "subseq (collect artifact_of (calls (mean_vectors_step cfg w a n avg)))
     [os_path_join a (''group'' @ fmt_03i n @ ''_mean_velocity.png'')]"
  by (simp add: mean_vectors_step_def guard_def)

lemma artifacts_secondary_circulation:
  "subseq (collect artifact_of (calls (secondary_circulation_step cfg w a n avg)))
     [os_path_join a (''group'' @ fmt_03i n @ ''_secondary_circulation.png'')]"
  by (simp add: secondary_circulation_step_def guard_def)

lemma artifacts_UVW_velocity_array:
  "subseq (collect artifact_of (calls (UVW_velocity_array_step cfg w a n avg)))
     [os_path_join a (''group'' @ fmt_03i n @ ''_UVW_velocity.png'')]"
  by (simp add: UVW_velocity_array_step_def guard_def)

lemma artifacts_flow_summmary:
  "subseq (collect artifact_of (calls (flow_summmary_step cfg w a n avg)))
     [os_path_join a (''group'' @ fmt_03i n @ ''_Flow_Summary.png'')]"
  by (simp add: flow_summmary_step_def guard_def)

lemma artifacts_output:
  "subseq (collect artifact_of (calls (output_steps cfg w a n avg)))
     ([os_path_join a (''group'' @ fmt_03i n @ ''_velocity.csv''),
       os_path_join a (''group'' @ fmt_03i n @ ''.nc'')] @
      [os_path_join a (''group'' @ fmt_03i n @ ''_U_avg_n_sd.png''),
       os_path_join a (''group'' @ fmt_03i n @ ''_V_avg_n_sd.png''),
       os_path_join a (''group'' @ fmt_03i n @ ''_W_avg_n_sd.png'')] @
      [os_path_join a (''group'' @ fmt_03i n @ ''_mean_velocity.png'')] @
      [os_path_join a (''group'' @ fmt_03i n @ ''_secondary_circulation.png'')] @
      [os_path_join a (''group'' @ fmt_03i n @ ''_UVW_velocity.png'')] @
      [os_path_join a (''group'' @ fmt_03i n @ ''_Flow_Summary.png'')] @ [])"
  unfolding output_steps_def calls_thenE collect_simps
  by (intro subseq_append_guard artifacts_save artifacts_avg_n_sd artifacts_mean_vectors
        artifacts_secondary_circulation artifacts_UVW_velocity_array artifacts_flow_summmary)
     simp

lemma artifacts_process_group:
  "subseq (collect artifact_of (calls (process_group cfg w a n g))) (group_artifact_names a n)"
proof -
  have "subseq (collect artifact_of (calls (process_group cfg w a n g)))
          ([os_path_join a (''group'' @ fmt_03i n @ ''_xy_lines.png'')] @
           [os_path_join a (''group'' @ fmt_03i n @ ''_velocity.csv''),
            os_path_join a (''group'' @ fmt_03i n @ ''.nc'')] @
           [os_path_join a (''group'' @ fmt_03i n @ ''_U_avg_n_sd.png''),
            os_path_join a (''group'' @ fmt_03i n @ ''_V_avg_n_sd.png''),
            os_path_join a (''group'' @ fmt_03i n @ ''_W_avg_n_sd.png'')] @
           [os_path_join a (''group'' @ fmt_03i n @ ''_mean_velocity.png'')] @
           [os_path_join a (''group'' @ fmt_03i n @ ''_secondary_circulation.png'')] @
           [os_path_join a (''group'' @ fmt_03i n @ ''_UVW_velocity.png'')] @
           [os_path_join a (''group'' @ fmt_03i n @ ''_Flow_Summary.png'')] @ [])"
    unfolding collect_process_group artifacts_refine append_Nil
    by (intro subseq_append_guard subseq_guard artifacts_plot_xy artifacts_output)
  then show ?thesis
    by (simp add: group_artifact_names_def artifact_suffixes_def)
qed

lemma subseq_set_mono: "subseq xs ys \<Longrightarrow> set xs \<subseteq> set ys"
  by (induction rule: list_emb.induct) auto

lemma subseq_distinct: "subseq xs ys \<Longrightarrow> distinct ys \<Longrightarrow> distinct xs"
proof (induction rule: list_emb.induct)
  case (list_emb_Cons2 x y xs ys)
  then show ?case
    using subseq_set_mono [of xs ys] by auto
qed simp_all

lemma artifacts_group_loop_index:
  "p \<in> set (collect artifact_of (calls (group_loop cfg w a n gs))) \<Longrightarrow>
     \<exists>k\<ge>n. p \<in> set (group_artifact_names a k)"
proof (induction gs arbitrary: n)
  case Nil
  then show ?case by simp
next
  case (Cons g gs)
  from Cons.prems consider
      "p \<in> set (collect artifact_of (calls (process_group cfg w a n g)))"
    | "p \<in> set (collect artifact_of (calls (group_loop cfg w a (Suc n) gs)))"
    by (auto simp: set_guard split: if_splits)
  then show ?case
  proof cases
    case 1
    then have "p \<in> set (group_artifact_names a n)"
      using subseq_set_mono [OF artifacts_process_group [of cfg w a n g]] by blast
    then show ?thesis by blast
  next
    case 2
    from Cons.IH [OF 2] obtain k where "Suc n \<le> k" "p \<in> set (group_artifact_names a k)"
      by blast
    then show ?thesis
      by (intro exI [of _ k]) simp
  qed
qed

lemma distinct_artifacts_group_loop:
  "distinct (collect artifact_of (calls (group_loop cfg w a n gs)))"
proof (induction gs arbitrary: n)
  case Nil
  then show ?case by simp
next
  case (Cons g gs)
  have first: "distinct (collect artifact_of (calls (process_group cfg w a n g)))"
    using artifacts_process_group [of cfg w a n g] distinct_group_artifact_names [of a n]
    by (rule subseq_distinct)
  have apart: "set (collect artifact_of (calls (process_group cfg w a n g))) \<inter>
               set (collect artifact_of (calls (group_loop cfg w a (Suc n) gs))) = {}"
  proof (rule ccontr)
    assume "\<not> ?thesis"
    then obtain p where p1: "p \<in> set (collect artifact_of (calls (process_group cfg w a n g)))"
      and p2: "p \<in> set (collect artifact_of (calls (group_loop cfg w a (Suc n) gs)))"
      by blast
    from p1 have "p \<in> set (group_artifact_names a n)"
      using subseq_set_mono [OF artifacts_process_group [of cfg w a n g]] by blast
    moreover from artifacts_group_loop_index [OF p2] obtain k
      where "Suc n \<le> k" "p \<in> set (group_artifact_names a k)"
      by blast
    ultimately show False
      using group_artifact_names_disjoint [of n k a] by auto
  qed
  from first apart Cons.IH [of "Suc n"] show ?case
    by (simp add: guard_def)
qed

lemma group_loop_prefix:
  "prefix (calls (group_loop cfg w a n gs)) (all_group_calls cfg w a n gs)"
  by (induction gs arbitrary: n) (simp_all add: guard_def)

lemma group_loop_complete:
  "ok (group_loop cfg w a n gs) \<Longrightarrow> calls (group_loop cfg w a n gs) = all_group_calls cfg w a n gs"
  by (induction gs arbitrary: n) simp_all

lemma group_artifact_names_out:
  "group_artifact_names ''out'' 0 =
     [''out/group000_xy_lines.png'', ''out/group000_velocity.csv'', ''out/group000.nc'',
      ''out/group000_U_avg_n_sd.png'', ''out/group000_V_avg_n_sd.png'',
      ''out/group000_W_avg_n_sd.png'', ''out/group000_mean_velocity.png'',
      ''out/group000_secondary_circulation.png'', ''out/group000_UVW_velocity.png'',
      ''out/group000_Flow_Summary.png'']"
  "group_artifact_names ''out'' (Suc 0) =
     [''out/group001_xy_lines.png'', ''out/group001_velocity.csv'', ''out/group001.nc'',
      ''out/group001_U_avg_n_sd.png'', ''out/group001_V_avg_n_sd.png'',
      ''out/group001_W_avg_n_sd.png'', ''out/group001_mean_velocity.png'',
      ''out/group001_secondary_circulation.png'', ''out/group001_UVW_velocity.png'',
      ''out/group001_Flow_Summary.png'']"
  by (simp_all add: group_artifact_names_def artifact_suffixes_def fmt_03i_0 fmt_03i_1
        os_path_join_out)

lemma calm_group_artifacts:
  "collect artifact_of (calls (process_group default_config calm_world ''out'' n g)) =
     group_artifact_names ''out'' n"
  by (simp add: collect_process_group step_defs refine_defs calm_world_def default_config_def
        group_artifact_names_def artifact_suffixes_def)

text \<open>
  C7. The files written for the group numbered \<open>n\<close> are among
  \<open>group_artifact_names outpath n\<close>: \<open>outpath\<close> joined with \<open>group\<close>, the counter padded
  to three digits, and one of the ten endings, in the order of the loop body. The names
  of two different group numbers have nothing in common. The loop numbers the groups
  0, 1, 2, ... in the order of the list (its calls are an initial segment of those of the
  groups so numbered, and all of them when no exception occurs). So no file name is
  written twice in a run.
\<close>

theorem artifact_names_unique:
  "subseq (collect artifact_of (calls (process_group cfg w outpath n g)))
     (group_artifact_names outpath n)
   \<and> (i \<noteq> j \<longrightarrow>
        set (group_artifact_names outpath i) \<inter> set (group_artifact_names outpath j) = {})
   \<and> prefix (calls (group_loop cfg w outpath 0 gs)) (all_group_calls cfg w outpath 0 gs)
   \<and> (ok (group_loop cfg w outpath 0 gs) \<longrightarrow>
        calls (group_loop cfg w outpath 0 gs) = all_group_calls cfg w outpath 0 gs)
   \<and> distinct (collect artifact_of (calls (group_loop cfg w outpath 0 gs)))"
  using artifacts_process_group [of cfg w outpath n g]
    group_artifact_names_disjoint [of i j outpath]
    group_loop_prefix [of cfg w outpath 0 gs]
    group_loop_complete [of cfg w outpath 0 gs]
    distinct_artifacts_group_loop [of cfg w outpath 0 gs]
  by blast

theorem artifact_names_unique_witness:
  "(0::nat) \<noteq> 1
   \<and> ok (group_loop default_config calm_world ''out'' 0 [[0, 1], [2]])
   \<and> collect artifact_of (calls (group_loop default_config calm_world ''out'' 0 [[0, 1], [2]])) =
       group_artifact_names ''out'' 0 @ group_artifact_names ''out'' 1
   \<and> set (group_artifact_names ''out'' 0) \<inter> set (group_artifact_names ''out'' 1) = {}
   \<and> distinct (group_artifact_names ''out'' 0 @ group_artifact_names ''out'' 1)
   \<and> group_artifact_names ''out'' 1 =
       [''out/group001_xy_lines.png'', ''out/group001_velocity.csv'', ''out/group001.nc'',
        ''out/group001_U_avg_n_sd.png'', ''out/group001_V_avg_n_sd.png'',
        ''out/group001_W_avg_n_sd.png'', ''out/group001_mean_velocity.png'',
        ''out/group001_secondary_circulation.png'', ''out/group001_UVW_velocity.png'',
        ''out/group001_Flow_Summary.png'']"
proof -
  have h: "ok (group_loop default_config calm_world ''out'' 0 [[0, 1], [2]])"
    by (simp add: process_group_def refine_defs step_defs calm_world_def default_config_def)
  have "collect artifact_of (all_group_calls default_config calm_world ''out'' 0 [[0, 1], [2]]) =
          group_artifact_names ''out'' 0 @ group_artifact_names ''out'' 1"
    by (simp add: calm_group_artifacts)
  then show ?thesis
    using h artifact_names_unique [of default_config calm_world "''out''" 0 "[0, 1]" 0 1 "[[0, 1], [2]]"]
      group_artifact_names_out(2)
    by simp
qed

end
